theory Spec2Isabelle
  imports Main "HOL-Library.Sublist" "HOL-Library.AList"
begin

section \<open>The Matter bridge plugin of scrypted-matter\<close>

text \<open>
  A shallow embedding of \<^verbatim>\<open>MatterPlugin\<close> (main.ts) and of the adapter registry
  \<^verbatim>\<open>supportedTypes\<close> (types/index.ts, types/light.ts, types/switch.ts).
  Exceptions are values of type \<open>error\<close>; every operation that mutates the plugin
  returns the plugin it leaves behind, also when it throws. The calls the plugin makes to
  its collaborators (the registry, the adapters, the platform, the console) are appended
  to the field \<open>trace\<close>, in the order the source makes them.
\<close>

subsection \<open>Strings\<close>

text \<open>\<^verbatim>\<open>Array.prototype.join\<close>: the segments with the separator between them.\<close>

fun join :: "string list \<Rightarrow> string \<Rightarrow> string" where
  "join [] sep = []"
| "join [x] sep = x"
| "join (x # y # ys) sep = x @ sep @ join (y # ys) sep"

text \<open>\<^verbatim>\<open>String.prototype.includes\<close>: the needle occurs at some position.\<close>

fun includes_str :: "string \<Rightarrow> string \<Rightarrow> bool" where
  "includes_str [] needle = (needle = [])"
| "includes_str (c # cs) needle = (prefix needle (c # cs) \<or> includes_str cs needle)"

definition startsWith :: "string \<Rightarrow> string \<Rightarrow> bool" where
  "startsWith s p = prefix p s"

definition endsWith :: "string \<Rightarrow> string \<Rightarrow> bool" where
  "endsWith s p = prefix (rev p) (rev s)"

subsection \<open>Errors\<close>

text \<open>
  \<open>StorageError\<close> is the library's error class thrown by the storage methods,
  \<open>TypeError\<close> the engine's error on a property read of \<^verbatim>\<open>undefined\<close>, and
  \<open>ExternalError\<close> a rejection coming out of a collaborator (the platform, the
  bridge aggregator, a device).
\<close>

datatype error = StorageError string | TypeError string | ExternalError string

subsection \<open>The storage key (main.ts, buildStorageKey)\<close>

definition buildStorageKey :: "string list \<Rightarrow> string \<Rightarrow> error + string" where
  "buildStorageKey contexts key =
     (let contextKey = join contexts ''.'' in
      if length key = 0 \<or>
         length contextKey = 0 \<or>
         includes_str contextKey ''..'' \<or>
         startsWith contextKey ''.'' \<or>
         endsWith contextKey ''.''
      then Inl (StorageError ''Context must not be an empty string!'')
      else Inr (contextKey @ ''.'' @ key))"

subsection \<open>Devices, events and adapters\<close>

text \<open>
  \<^verbatim>\<open>ScryptedDeviceType\<close> and \<^verbatim>\<open>ScryptedInterface\<close> are string enums of the platform
  SDK; the members the plugin names are given here with the SDK's values.
\<close>

type_synonym ScryptedDeviceType = string
type_synonym ScryptedInterface = string

definition ScryptedDeviceType_Light :: ScryptedDeviceType where
  "ScryptedDeviceType_Light = ''Light''"

definition ScryptedDeviceType_Switch :: ScryptedDeviceType where
  "ScryptedDeviceType_Switch = ''Switch''"

definition ScryptedInterface_ScryptedDevice :: ScryptedInterface where
  "ScryptedInterface_ScryptedDevice = ''ScryptedDevice''"

definition ScryptedInterface_Online :: ScryptedInterface where
  "ScryptedInterface_Online = ''Online''"

definition ScryptedInterface_Battery :: ScryptedInterface where
  "ScryptedInterface_Battery = ''Battery''"

definition ScryptedInterface_OnOff :: ScryptedInterface where
  "ScryptedInterface_OnOff = ''OnOff''"

definition ScryptedInterface_ObjectDetector :: ScryptedInterface where
  "ScryptedInterface_ObjectDetector = ''ObjectDetector''"

text \<open>
  The fields of a platform device the plugin reads. \<open>mixins\<close> may be
  \<^verbatim>\<open>undefined\<close> (\<open>None\<close>): the source reads it as \<^verbatim>\<open>device.mixins || []\<close>.
\<close>

record ScryptedDevice =
  device_id :: string
  device_name :: string
  device_type :: ScryptedDeviceType
  interfaces :: "ScryptedInterface list"
  mixins :: "string list option"

text \<open>\<open>property\<close> is optional in the SDK; a template literal prints \<^verbatim>\<open>undefined\<close> for it.\<close>

record EventDetails =
  eventInterface :: ScryptedInterface
  property :: "string option"

fun template :: "string option \<Rightarrow> string" where
  "template None = ''undefined''"
| "template (Some s) = s"

text \<open>types/index.ts: a numeric enum, so its members are 0, 1 and 2.\<close>

datatype EventStatus = Handled | Unhandled | NotSupported

fun EventStatus_value :: "EventStatus \<Rightarrow> nat" where
  "EventStatus_value Handled = 0"
| "EventStatus_value Unhandled = 1"
| "EventStatus_value NotSupported = 2"

text \<open>
  What the variable \<^verbatim>\<open>report\<close> of deviceListen can hold: a member of the enum, the
  \<^verbatim>\<open>undefined\<close> of the adapters whose sendEvent returns nothing (the older
  types/light.ts and types/switch.ts), or the object \<^verbatim>\<open>{}\<close> the dispatcher assigns.
  \<open>falsy\<close> is the language's \<^verbatim>\<open>!report\<close>: true of the number 0 and of \<^verbatim>\<open>undefined\<close>,
  false of any other number and of any object.
\<close>

datatype report = Status EventStatus | Undefined | EmptyObject

fun falsy :: "report \<Rightarrow> bool" where
  "falsy (Status st) = (EventStatus_value st = 0)"
| "falsy Undefined = True"
| "falsy EmptyObject = False"

text \<open>The bridge-side nodes the adapters build, tagged with the device they command.\<close>

datatype MatterDevice = OnOffLightDevice string | OnOffPluginUnitDevice string

text \<open>What an adapter does to the platform device while it translates an event.\<close>

datatype action = TurnOn string | TurnOff string

text \<open>
  types/index.ts, \<^verbatim>\<open>SupportedType\<close>. \<open>discover\<close> resolves to a node or to
  \<^verbatim>\<open>undefined\<close>, or rejects; \<open>sendEvent\<close> performs some actions and resolves to a
  report, or rejects. \<open>'d\<close> is the type of the event payload.
\<close>

record 'd SupportedType =
  discover :: "ScryptedDevice \<Rightarrow> error + MatterDevice option"
  sendEvent :: "ScryptedDevice \<Rightarrow> EventDetails \<Rightarrow> 'd \<Rightarrow> action list \<times> (error + report)"

text \<open>\<^verbatim>\<open>supportedTypes\<close>, a Map keyed by the device type.\<close>

type_synonym 'd registry = "ScryptedDeviceType \<rightharpoonup> 'd SupportedType"

subsection \<open>The adapters (types/light.ts, types/switch.ts)\<close>

text \<open>
  \<open>turn\<close> is the outcome of \<^verbatim>\<open>device.turnOn()\<close> and \<^verbatim>\<open>device.turnOff()\<close> on the
  platform: \<open>None\<close> when the call resolves, the error when it rejects. The payload of
  an event is read for its truth value only.
\<close>

definition onoff_sendEvent ::
  "(action \<Rightarrow> error option) \<Rightarrow> ScryptedDevice \<Rightarrow> EventDetails \<Rightarrow> bool \<Rightarrow>
     action list \<times> (error + report)" where
  "onoff_sendEvent turn device eventDetails eventData =
     (if eventInterface eventDetails \<noteq> ScryptedInterface_OnOff
      then ([], Inr (Status NotSupported))
      else
        (let a = (if eventData then TurnOn (device_id device) else TurnOff (device_id device)) in
         case turn a of
           Some e \<Rightarrow> ([a], Inl e)
         | None \<Rightarrow> ([a], Inr (Status Handled))))"

text \<open>
  The older types/light.ts and types/switch.ts, where sendEvent returns nothing: the
  dispatcher receives \<^verbatim>\<open>undefined\<close> for every event.
\<close>

definition void_sendEvent ::
  "ScryptedDevice \<Rightarrow> EventDetails \<Rightarrow> bool \<Rightarrow> action list \<times> (error + report)" where
  "void_sendEvent device eventDetails eventData = ([], Inr Undefined)"

definition light :: "(action \<Rightarrow> error option) \<Rightarrow> bool SupportedType" where
  "light turn =
     \<lparr> discover = (\<lambda>device.
         if ScryptedInterface_OnOff \<in> set (interfaces device)
         then Inr (Some (OnOffLightDevice (device_id device)))
         else Inr None),
       sendEvent = onoff_sendEvent turn \<rparr>"

definition switch :: "(action \<Rightarrow> error option) \<Rightarrow> bool SupportedType" where
  "switch turn =
     \<lparr> discover = (\<lambda>device.
         if ScryptedInterface_OnOff \<in> set (interfaces device)
         then Inr (Some (OnOffPluginUnitDevice (device_id device)))
         else Inr None),
       sendEvent = onoff_sendEvent turn \<rparr>"

text \<open>
  The registry after types/index.ts has imported light.ts and switch.ts. The third
  import, outlet.ts, is not among the sources: the operations below take the registry as
  an argument, so that they are stated for any set of registered adapters.
\<close>

definition supportedTypes :: "(action \<Rightarrow> error option) \<Rightarrow> bool registry" where
  "supportedTypes turn =
     [ScryptedDeviceType_Light \<mapsto> light turn, ScryptedDeviceType_Switch \<mapsto> switch turn]"

subsection \<open>The plugin and its collaborators\<close>

text \<open>
  The answers of the collaborators the plugin awaits: \<open>None\<close> when the call resolves,
  the error when it rejects.
\<close>

record platform =
  getComponent :: "string \<Rightarrow> error option"
  setMixins :: "string \<Rightarrow> string list \<Rightarrow> error option"
  addBridgedDevice :: "MatterDevice option \<Rightarrow> error option"

text \<open>The calls the plugin makes, as they appear in \<open>trace\<close>.\<close>

datatype call =
    Has ScryptedDeviceType
  | Get ScryptedDeviceType
  | Discover string
  | SendEvent string ScryptedInterface
  | Action action
  | GetComponent string
  | SetMixins string "string list"
  | AddBridgedDevice "MatterDevice option" string
  | Listen string ScryptedInterface
  | Warn string
  | Debug "string list"

text \<open>
  \<open>this_id\<close> is \<^verbatim>\<open>this.id\<close>; \<open>defaultIncluded\<close> and \<open>syncedDevices\<close> are the
  values of the storage settings of these names, \<open>None\<close> while the setting has never
  been written: neither setting declares a default. The source reads the first as
  \<^verbatim>\<open>defaultIncluded || {}\<close> and the second with no fallback. \<open>devices\<close> is the Map
  \<^verbatim>\<open>this.devices\<close>; \<open>DEBUG\<close> the module's flag.
\<close>

record MatterPlugin =
  this_id :: string
  defaultIncluded :: "(string \<times> int) list option"
  syncedDevices :: "string list option"
  devices :: "(string \<times> ScryptedDevice) list"
  DEBUG :: bool
  trace :: "call list"

text \<open>\<^verbatim>\<open>device.mixins || []\<close> and \<^verbatim>\<open>this.storageSettings.values.defaultIncluded || {}\<close>.\<close>

definition mixins_or_empty :: "ScryptedDevice \<Rightarrow> string list" where
  "mixins_or_empty device = (case mixins device of None \<Rightarrow> [] | Some l \<Rightarrow> l)"

definition defaultIncluded_or_empty :: "MatterPlugin \<Rightarrow> (string \<times> int) list" where
  "defaultIncluded_or_empty this =
     (case defaultIncluded this of None \<Rightarrow> [] | Some al \<Rightarrow> al)"

definition called :: "call \<Rightarrow> MatterPlugin \<Rightarrow> MatterPlugin" where
  "called c this = this\<lparr>trace := trace this @ [c]\<rparr>"

definition includeToken :: int where
  "includeToken = 4"

datatype DeviceMixinStatus = NotSupported_mixin | Setup | AlreadySetup

subsection \<open>Enrollment (main.ts, tryEnableMixin)\<close>

text \<open>
  \<open>tryEnableMixinWith\<close> is the method with the module constant \<^verbatim>\<open>includeToken\<close> as
  its first argument; \<open>tryEnableMixin\<close> is the method as it stands.
\<close>

definition tryEnableMixinWith ::
  "int \<Rightarrow> 'd registry \<Rightarrow> platform \<Rightarrow> ScryptedDevice option \<Rightarrow> MatterPlugin \<Rightarrow>
     (error + DeviceMixinStatus) \<times> MatterPlugin" where
  "tryEnableMixinWith token supported plat dev this =
     (case dev of
        None \<Rightarrow> (Inr NotSupported_mixin, this)
      | Some device \<Rightarrow>
          (let ms = mixins_or_empty device in
           if this_id this \<in> set ms then (Inr AlreadySetup, this)
           else
             (let included = defaultIncluded_or_empty this in
              if map_of included (device_id device) = Some token then (Inr AlreadySetup, this)
              else
                (let this1 = called (Has (device_type device)) this in
                 if supported (device_type device) = None then (Inr NotSupported_mixin, this1)
                 else
                   (let ms1 = ms @ [this_id this];
                        this2 = called (GetComponent ''plugins'') this1 in
                    case getComponent plat ''plugins'' of
                      Some e \<Rightarrow> (Inl e, this2)
                    | None \<Rightarrow>
                        (let this3 = called (SetMixins (device_id device) ms1) this2 in
                         case setMixins plat (device_id device) ms1 of
                           Some e \<Rightarrow> (Inl e, this3)
                         | None \<Rightarrow>
                             (Inr Setup,
                              this3\<lparr>defaultIncluded :=
                                Some (AList.update (device_id device) token included)\<rparr>)))))))"

definition tryEnableMixin ::
  "'d registry \<Rightarrow> platform \<Rightarrow> ScryptedDevice option \<Rightarrow> MatterPlugin \<Rightarrow>
     (error + DeviceMixinStatus) \<times> MatterPlugin" where
  "tryEnableMixin = tryEnableMixinWith includeToken"

subsection \<open>Event dispatch (main.ts, deviceListen)\<close>

text \<open>
  The membership test reads \<^verbatim>\<open>this.storageSettings.values.syncedDevices.includes\<close>:
  while the setting has never been written the read of \<^verbatim>\<open>includes\<close> throws.
\<close>

definition warning :: "EventDetails \<Rightarrow> ScryptedDevice \<Rightarrow> string" where
  "warning eventDetails eventSource =
     eventInterface eventDetails @ ''.'' @ template (property eventDetails) @
     '' not supported for device '' @ device_type eventSource"

definition deviceListen ::
  "'d registry \<Rightarrow> ScryptedDevice option \<Rightarrow> EventDetails \<Rightarrow> 'd \<Rightarrow> MatterPlugin \<Rightarrow>
     (error + unit) \<times> MatterPlugin" where
  "deviceListen supported src eventDetails eventData this =
     (case src of
        None \<Rightarrow> (Inr (), this)
      | Some eventSource \<Rightarrow>
          (case syncedDevices this of
             None \<Rightarrow> (Inl (TypeError ''Cannot read properties of undefined''), this)
           | Some synced \<Rightarrow>
               if device_id eventSource \<notin> set synced then (Inr (), this)
               else if eventInterface eventDetails = ScryptedInterface_ScryptedDevice
               then (Inr (), this)
               else
                 (let this1 = called (Get (device_type eventSource)) this in
                  case supported (device_type eventSource) of
                    None \<Rightarrow> (Inr (), this1)
                  | Some supportedType \<Rightarrow>
                      (let this2 = called (SendEvent (device_id eventSource)
                                             (eventInterface eventDetails)) this1;
                           (acts, res) =
                             sendEvent supportedType eventSource eventDetails eventData;
                           this3 = this2\<lparr>trace := trace this2 @ map Action acts\<rparr> in
                       case res of
                         Inl e \<Rightarrow> (Inl e, this3)
                       | Inr report0 \<Rightarrow>
                           (let report1 =
                                  (if falsy report0 \<and>
                                      eventInterface eventDetails = ScryptedInterface_Online
                                   then EmptyObject else report0);
                                report2 =
                                  (if falsy report1 \<and>
                                      eventInterface eventDetails = ScryptedInterface_Battery
                                   then EmptyObject else report1) in
                            if falsy report2
                            then (Inr (),
                                  called (Warn (warning eventDetails eventSource)) this3)
                            else if DEBUG this3
                            then (Inr (),
                                  called (Debug [''event'', eventInterface eventDetails,
                                                 template (property eventDetails),
                                                 device_type eventSource]) this3)
                            else (Inr (), this3))))))"

subsection \<open>Startup enumeration and the live feed (main.ts, start)\<close>

text \<open>
  The block that start contains twice, in the loop over the known devices and in the
  callback of \<^verbatim>\<open>systemManager.listen\<close>: look the adapter up, await its discover and
  hand the node to \<^verbatim>\<open>aggregator.addBridgedDevice\<close>. Reading \<^verbatim>\<open>device.type\<close> of an
  absent device, or \<^verbatim>\<open>discover\<close> of an absent adapter, throws.
\<close>

definition discover_and_add ::
  "'d registry \<Rightarrow> platform \<Rightarrow> ScryptedDevice option \<Rightarrow> MatterPlugin \<Rightarrow>
     (error + unit) \<times> MatterPlugin" where
  "discover_and_add supported plat dev this =
     (case dev of
        None \<Rightarrow> (Inl (TypeError ''Cannot read properties of undefined''), this)
      | Some device \<Rightarrow>
          (let this1 = called (Get (device_type device)) this in
           case supported (device_type device) of
             None \<Rightarrow> (Inl (TypeError ''Cannot read properties of undefined''), this1)
           | Some supportedType \<Rightarrow>
               (let this2 = called (Discover (device_id device)) this1 in
                case discover supportedType device of
                  Inl e \<Rightarrow> (Inl e, this2)
                | Inr matterDevice \<Rightarrow>
                    (let this3 =
                       called (AddBridgedDevice matterDevice (device_name device)) this2 in
                     case addBridgedDevice plat matterDevice of
                       Some e \<Rightarrow> (Inl e, this3)
                     | None \<Rightarrow> (Inr (), this3)))))"

text \<open>
  The loop of start over \<^verbatim>\<open>Object.keys(systemManager.getSystemState())\<close>; the list
  holds what \<^verbatim>\<open>systemManager.getDeviceById\<close> answers for each key, in their order.
  The loop has no handler: an error thrown in its body leaves it.
\<close>

fun start_devices ::
  "'d registry \<Rightarrow> platform \<Rightarrow> ScryptedDevice option list \<Rightarrow> MatterPlugin \<Rightarrow>
     (error + unit) \<times> MatterPlugin" where
  "start_devices supported plat [] this = (Inr (), this)"
| "start_devices supported plat (device # rest) this =
     (case tryEnableMixin supported plat device this of
        (Inl e, this1) \<Rightarrow> (Inl e, this1)
      | (Inr status, this1) \<Rightarrow>
          if status = Setup \<or> status = AlreadySetup
          then
            (case discover_and_add supported plat device this1 of
               (Inl e, this2) \<Rightarrow> (Inl e, this2)
             | (Inr u, this2) \<Rightarrow> start_devices supported plat rest this2)
          else start_devices supported plat rest this1)"

text \<open>
  The callback start passes to \<^verbatim>\<open>systemManager.listen\<close>. Its last statement calls
  deviceListen without awaiting it: what deviceListen does is done, its rejection is not
  the callback's.
\<close>

definition listen_callback ::
  "'d registry \<Rightarrow> platform \<Rightarrow> ScryptedDevice option \<Rightarrow> EventDetails \<Rightarrow> 'd \<Rightarrow>
     MatterPlugin \<Rightarrow> (error + unit) \<times> MatterPlugin" where
  "listen_callback supported plat eventSource eventDetails eventData this =
     (case tryEnableMixin supported plat eventSource this of
        (Inl e, this1) \<Rightarrow> (Inl e, this1)
      | (Inr status, this1) \<Rightarrow>
          (case (if status = Setup then discover_and_add supported plat eventSource this1
                 else (Inr (), this1)) of
             (Inl e, this2) \<Rightarrow> (Inl e, this2)
           | (Inr u, this2) \<Rightarrow>
               if status = Setup \<or> status = AlreadySetup
               then
                 (case eventSource of
                    None \<Rightarrow> (Inl (TypeError ''Cannot read properties of undefined''), this2)
                  | Some device \<Rightarrow>
                      (let this3 =
                         (if map_of (devices this2) (device_id device) = None
                          then called (Listen (device_id device) ScryptedInterface_ObjectDetector)
                                 (this2\<lparr>devices :=
                                    AList.update (device_id device) device (devices this2)\<rparr>)
                          else this2) in
                       (Inr (),
                        snd (deviceListen supported (Some device) eventDetails eventData this3))))
               else (Inr (), this2)))"

subsection \<open>Reading the trace\<close>

text \<open>The calls that put a node on the bridge: an adapter's discover and addBridgedDevice.\<close>

fun is_bridging :: "call \<Rightarrow> bool" where
  "is_bridging (Discover i) = True"
| "is_bridging (AddBridgedDevice node label) = True"
| "is_bridging c = False"

text \<open>
  The bridging calls of the block \<open>discover_and_add\<close> for a device: none when the
  device's type has no adapter (the block throws before it calls), the discover alone
  when discover rejects, the discover and the addBridgedDevice of its node otherwise.
\<close>

definition bridging_calls :: "'d registry \<Rightarrow> ScryptedDevice \<Rightarrow> call list" where
  "bridging_calls supported device =
     (case supported (device_type device) of
        None \<Rightarrow> []
      | Some supportedType \<Rightarrow>
          Discover (device_id device) #
          (case discover supportedType device of
             Inl e \<Rightarrow> []
           | Inr matterDevice \<Rightarrow> [AddBridgedDevice matterDevice (device_name device)]))"

text \<open>
  The Synced-Device Set: the ids the setting holds, none while it has never been written.
\<close>

definition synced_set :: "MatterPlugin \<Rightarrow> string set" where
  "synced_set this = (case syncedDevices this of None \<Rightarrow> {} | Some synced \<Rightarrow> set synced)"

text \<open>The calls into the adapter registry and into an adapter's sendEvent.\<close>

fun is_registry :: "call \<Rightarrow> bool" where
  "is_registry (Has t) = True"
| "is_registry (Get t) = True"
| "is_registry (SendEvent i f) = True"
| "is_registry c = False"

fun is_warning :: "call \<Rightarrow> bool" where
  "is_warning (Warn m) = True"
| "is_warning c = False"

subsection \<open>A sample installation\<close>

text \<open>
  The plugin before anything is enrolled, with live sync enabled for the devices d1 and d2; a
  switch and a light with on/off control; a sensor, of a type without an adapter; and
  collaborators whose calls all resolve.
\<close>

definition plugin0 :: MatterPlugin where
  "plugin0 =
     \<lparr> this_id = ''matter'', defaultIncluded = None, syncedDevices = Some [''d1'', ''d2''],
       devices = [], DEBUG = False, trace = [] \<rparr>"

definition d1 :: ScryptedDevice where
  "d1 = \<lparr> device_id = ''d1'', device_name = ''Pump'', device_type = ''Switch'',
          interfaces = [''OnOff''], mixins = None \<rparr>"

definition d2 :: ScryptedDevice where
  "d2 = \<lparr> device_id = ''d2'', device_name = ''Lamp'', device_type = ''Light'',
          interfaces = [''OnOff'', ''Brightness''], mixins = Some [''matter''] \<rparr>"

definition d3 :: ScryptedDevice where
  "d3 = \<lparr> device_id = ''d3'', device_name = ''Door'', device_type = ''Sensor'',
          interfaces = [''BinarySensor''], mixins = Some [] \<rparr>"

text \<open>The plugin as installed, before any of its settings is written.\<close>

definition plugin_new :: MatterPlugin where
  "plugin_new = plugin0\<lparr>syncedDevices := None\<rparr>"

text \<open>The plugin after a run under the token 3 that enrolled d1 and d2.\<close>

definition plugin_v3 :: MatterPlugin where
  "plugin_v3 = plugin0\<lparr>defaultIncluded := Some [(''d1'', 3), (''d2'', 3)]\<rparr>"

definition turn_ok :: "action \<Rightarrow> error option" where
  "turn_ok a = None"

definition platform_ok :: platform where
  "platform_ok =
     \<lparr> getComponent = (\<lambda>name. None), setMixins = (\<lambda>i ms. None),
       addBridgedDevice = (\<lambda>node. None) \<rparr>"

text \<open>A platform that rejects the attachment of the device d1, and of no other.\<close>

definition platform_rejecting_d1 :: platform where
  "platform_rejecting_d1 =
     \<lparr> getComponent = (\<lambda>name. None),
       setMixins = (\<lambda>i ms. if i = ''d1'' then Some (ExternalError ''setMixins'') else None),
       addBridgedDevice = (\<lambda>node. None) \<rparr>"

section \<open>Properties\<close>

lemmas sample_defs =
  plugin0_def plugin_new_def plugin_v3_def d1_def d2_def d3_def platform_ok_def platform_rejecting_d1_def
  turn_ok_def supportedTypes_def light_def switch_def
  ScryptedDeviceType_Light_def ScryptedDeviceType_Switch_def
  ScryptedInterface_OnOff_def ScryptedInterface_Online_def ScryptedInterface_Battery_def
  ScryptedInterface_ScryptedDevice_def ScryptedInterface_ObjectDetector_def

lemmas enroll_defs =
  tryEnableMixin_def tryEnableMixinWith_def mixins_or_empty_def defaultIncluded_or_empty_def
  called_def includeToken_def Let_def

subsection \<open>The storage key\<close>

lemma includes_str_sublist: "includes_str s needle \<longleftrightarrow> sublist needle s"
  by (induction s) (simp_all add: sublist_Cons_right)

lemma endsWith_suffix: "endsWith s p \<longleftrightarrow> suffix p s"
  by (simp add: endsWith_def suffix_to_prefix)

lemma buildStorageKey_Inl_iff:
  "buildStorageKey contexts key = Inl (StorageError ''Context must not be an empty string!'')
     \<longleftrightarrow>
     (key = [] \<or> contexts = [] \<or> join contexts ''.'' = [] \<or>
      sublist ''..'' (join contexts ''.'') \<or>
      prefix ''.'' (join contexts ''.'') \<or>
      suffix ''.'' (join contexts ''.''))"
proof (cases "contexts = []")
  case True
  then show ?thesis by (simp add: buildStorageKey_def)
next
  case False
  then show ?thesis
    by (simp add: buildStorageKey_def Let_def includes_str_sublist startsWith_def
        endsWith_suffix)
qed

lemma buildStorageKey_cases:
  "buildStorageKey contexts key = Inl (StorageError ''Context must not be an empty string!'') \<or>
   buildStorageKey contexts key = Inr (join contexts ''.'' @ ''.'' @ key)"
  by (simp add: buildStorageKey_def Let_def)

lemma buildStorageKey_examples:
  "isl (buildStorageKey [] ''x'')"
  "isl (buildStorageKey [''a''] [])"
  "isl (buildStorageKey [''a'', []] ''x'')"
  "buildStorageKey [''a'', ''b''] ''x'' = Inr ''a.b.x''"
  "buildStorageKey [''a.b''] ''x'' = Inr ''a.b.x''"
  by (simp_all add: buildStorageKey_def startsWith_def endsWith_def)

text \<open>
  Claim C7, as the code has it. buildStorageKey throws, and throws the StorageError,
  exactly when the key is empty, the context list is empty, or the joined context is
  empty, contains \<open>..\<close>, or starts or ends with the separator; otherwise it returns the
  joined context, the separator and the key. So \<open>buildStorageKey [] x\<close>,
  \<open>buildStorageKey [a] ""\<close> and \<open>buildStorageKey [a, ""] x\<close> throw, and
  \<open>buildStorageKey [a, b] x\<close> returns \<open>a.b.x\<close>. A separator inside a segment is not
  looked for: \<open>buildStorageKey [a.b] x\<close> returns \<open>a.b.x\<close> as well.
\<close>

theorem buildStorageKey_throws_iff:
  "(buildStorageKey contexts key = Inl (StorageError ''Context must not be an empty string!'')
      \<longleftrightarrow>
      (key = [] \<or> contexts = [] \<or> join contexts ''.'' = [] \<or>
       sublist ''..'' (join contexts ''.'') \<or>
       prefix ''.'' (join contexts ''.'') \<or>
       suffix ''.'' (join contexts ''.'')))
   \<and> (buildStorageKey contexts key = Inl (StorageError ''Context must not be an empty string!'') \<or>
        buildStorageKey contexts key = Inr (join contexts ''.'' @ ''.'' @ key))
   \<and> isl (buildStorageKey [] ''x'')
   \<and> isl (buildStorageKey [''a''] [])
   \<and> isl (buildStorageKey [''a'', []] ''x'')
   \<and> buildStorageKey [''a'', ''b''] ''x'' = Inr ''a.b.x''
   \<and> buildStorageKey [''a.b''] ''x'' = Inr ''a.b.x''"
  using buildStorageKey_Inl_iff [of contexts key] buildStorageKey_cases [of contexts key]
    buildStorageKey_examples
  by blast

text \<open>
  Claim C7 as the specification states it lists \<open>buildKey(["a.b"], "x")\<close> among the
  calls that fail. The joined context \<open>a.b\<close> holds no \<open>..\<close> and neither starts nor
  ends with the separator: the call returns.
\<close>

theorem buildStorageKey_dotted_segment_accepted:
  "\<not> isl (buildStorageKey [''a.b''] ''x'') \<and> join [''a.b''] ''.'' = ''a.b'' \<and>
   \<not> includes_str ''a.b'' ''..''"
  by (simp add: buildStorageKey_def startsWith_def endsWith_def)

text \<open>
  Claim C10. Of the leaf key, buildStorageKey checks that it is not empty and nothing
  else: a context list it accepts with one key it accepts with every non-empty key, and
  the result is the joined context, the separator and that key, whatever the key holds.
  With the contexts \<open>[a]\<close> and the key \<open>.x\<close> it returns \<open>a..x\<close>, which contains
  \<open>..\<close>.
\<close>

theorem buildStorageKey_leaf_unchecked:
  assumes "key \<noteq> []" and "buildStorageKey contexts key0 = Inr r0"
  shows "buildStorageKey contexts key = Inr (join contexts ''.'' @ ''.'' @ key)"
  using assms by (simp add: buildStorageKey_def Let_def split: if_splits)

theorem buildStorageKey_leaf_unchecked_witness:
  "buildStorageKey [''a''] ''x'' = Inr ''a.x'' \<and>
   buildStorageKey [''a''] ''.x'' = Inr ''a..x'' \<and> includes_str ''a..x'' ''..''"
proof -
  have accepted: "buildStorageKey [''a''] ''x'' = Inr ''a.x''"
    by (simp add: buildStorageKey_def startsWith_def endsWith_def)
  have nonempty: "''.x'' \<noteq> []" by simp
  show ?thesis
    using buildStorageKey_leaf_unchecked [OF nonempty accepted] accepted by simp
qed

subsection \<open>Enrollment\<close>

lemma tryEnableMixinWith_Setup_enrolled:
  assumes "tryEnableMixinWith token supported plat (Some device) this = (Inr Setup, this1)"
  shows "map_of (defaultIncluded_or_empty this1) (device_id device) = Some token"
  using assms
  by (auto simp add: tryEnableMixinWith_def Let_def called_def AList.update_conv'
      defaultIncluded_or_empty_def split: option.splits if_splits)

lemma tryEnableMixinWith_enrolled:
  assumes "map_of (defaultIncluded_or_empty this) (device_id device) = Some token"
  shows "tryEnableMixinWith token supported plat (Some device) this = (Inr AlreadySetup, this)"
  using assms by (simp add: tryEnableMixinWith_def Let_def)

lemma tryEnableMixinWith_attached:
  assumes "this_id this \<in> set (mixins_or_empty device)"
  shows "tryEnableMixinWith token supported plat (Some device) this = (Inr AlreadySetup, this)"
  using assms by (simp add: tryEnableMixinWith_def Let_def)

lemma tryEnableMixinWith_status:
  "fst (tryEnableMixinWith token supported plat dev this) =
     (case dev of
        None \<Rightarrow> Inr NotSupported_mixin
      | Some device \<Rightarrow>
          if this_id this \<in> set (mixins_or_empty device) then Inr AlreadySetup
          else if map_of (defaultIncluded_or_empty this) (device_id device) = Some token
          then Inr AlreadySetup
          else if supported (device_type device) = None then Inr NotSupported_mixin
          else
            (case getComponent plat ''plugins'' of
               Some e \<Rightarrow> Inl e
             | None \<Rightarrow>
                 (case setMixins plat (device_id device)
                         (mixins_or_empty device @ [this_id this]) of
                    Some e \<Rightarrow> Inl e
                  | None \<Rightarrow> Inr Setup)))"
  by (simp add: tryEnableMixinWith_def Let_def split: option.splits)



text \<open>
  Claim C3, as the code has it. tryEnableMixin classifies a device by these tests, in
  this order, and does nothing else before the last: an absent device is NotSupported;
  else a mixin list that holds the plugin's id is AlreadySetup; else an entry of
  defaultIncluded equal to includeToken is AlreadySetup; else, the registry consulted, a
  type without an adapter is NotSupported; otherwise the plugin asks the platform for its
  plugins component and calls setMixins with the mixin list and its own id appended. When
  the platform accepts, the token is written into defaultIncluded and the result is
  Setup; when the platform rejects either call, the rejection is thrown and defaultIncluded
  is not written.
\<close>

theorem tryEnableMixin_order:
  "tryEnableMixin supported plat dev this =
     (case dev of
        None \<Rightarrow> (Inr NotSupported_mixin, this)
      | Some device \<Rightarrow>
          if this_id this \<in> set (mixins_or_empty device) then (Inr AlreadySetup, this)
          else if map_of (defaultIncluded_or_empty this) (device_id device) = Some includeToken
          then (Inr AlreadySetup, this)
          else if supported (device_type device) = None
          then (Inr NotSupported_mixin,
                this\<lparr>trace := trace this @ [Has (device_type device)]\<rparr>)
          else
            (case getComponent plat ''plugins'' of
               Some e \<Rightarrow>
                 (Inl e,
                  this\<lparr>trace := trace this @
                    [Has (device_type device), GetComponent ''plugins'']\<rparr>)
             | None \<Rightarrow>
                 (case setMixins plat (device_id device)
                         (mixins_or_empty device @ [this_id this]) of
                    Some e \<Rightarrow>
                      (Inl e,
                       this\<lparr>trace := trace this @
                         [Has (device_type device), GetComponent ''plugins'',
                          SetMixins (device_id device)
                            (mixins_or_empty device @ [this_id this])]\<rparr>)
                  | None \<Rightarrow>
                      (Inr Setup,
                       this\<lparr>trace := trace this @
                              [Has (device_type device), GetComponent ''plugins'',
                               SetMixins (device_id device)
                                 (mixins_or_empty device @ [this_id this])],
                            defaultIncluded :=
                              Some (AList.update (device_id device) includeToken
                                      (defaultIncluded_or_empty this))\<rparr>))))"
  by (simp add: tryEnableMixin_def tryEnableMixinWith_def Let_def called_def
      split: option.splits)

text \<open>
  Claim C3 as the specification states it ends with "otherwise the device is set up
  (Setup)". d1 passes the four tests (not attached, no entry, a type with an adapter); on
  a platform that rejects setMixins the result is the rejection, not Setup.
\<close>

theorem tryEnableMixin_rejected_is_not_Setup:
  "this_id plugin0 \<notin> set (mixins_or_empty d1) \<and>
   map_of (defaultIncluded_or_empty plugin0) (device_id d1) = None \<and>
   supportedTypes turn_ok (device_type d1) = Some (switch turn_ok) \<and>
   tryEnableMixin (supportedTypes turn_ok) platform_rejecting_d1 (Some d1) plugin0 =
     (Inl (ExternalError ''setMixins''),
      plugin0\<lparr>trace := [Has ''Switch'', GetComponent ''plugins'',
                        SetMixins ''d1'' [''matter'']]\<rparr>)"
  by (simp add: sample_defs enroll_defs)





text \<open>
  Claim C5, as the code has it. Let the entry of defaultIncluded for a device hold a
  token other than the current one, let the device's type have an adapter and the
  platform accept the attachment. If the device's mixin list does not hold the plugin's
  id, the next evaluation sets the device up, once: it returns Setup and stores the
  current token, and the evaluation after it returns AlreadySetup and changes nothing.
  If the mixin list holds the plugin's id, the evaluation returns AlreadySetup whatever
  token is stored, and changes nothing: the test of the mixin list comes first.
\<close>

theorem token_change_sets_up_detached_once:
  assumes stale: "map_of (defaultIncluded_or_empty this) (device_id device) = Some old"
      "old \<noteq> token"
    and adapter: "supported (device_type device) = Some adapter"
    and resolves: "getComponent plat ''plugins'' = None"
      "setMixins plat (device_id device) (mixins_or_empty device @ [this_id this]) = None"
    and same_id: "device_id device' = device_id device"
  shows "if this_id this \<in> set (mixins_or_empty device)
         then tryEnableMixinWith token supported plat (Some device) this =
                (Inr AlreadySetup, this)
         else fst (tryEnableMixinWith token supported plat (Some device) this) = Inr Setup \<and>
              map_of (defaultIncluded_or_empty
                        (snd (tryEnableMixinWith token supported plat (Some device) this)))
                     (device_id device) = Some token \<and>
              tryEnableMixinWith token supported plat' (Some device')
                  (snd (tryEnableMixinWith token supported plat (Some device) this)) =
                (Inr AlreadySetup,
                 snd (tryEnableMixinWith token supported plat (Some device) this))"
proof (cases "this_id this \<in> set (mixins_or_empty device)")
  case True
  then show ?thesis by (simp add: tryEnableMixinWith_attached)
next
  case False
  obtain r this1
    where run: "tryEnableMixinWith token supported plat (Some device) this = (r, this1)"
    by (cases "tryEnableMixinWith token supported plat (Some device) this")
  from False stale adapter resolves have r: "r = Inr Setup"
    using run by (auto simp add: tryEnableMixinWith_def Let_def)
  from run r
  have enrolled: "map_of (defaultIncluded_or_empty this1) (device_id device) = Some token"
    by (simp add: tryEnableMixinWith_Setup_enrolled)
  then have "tryEnableMixinWith token supported plat' (Some device') this1 =
               (Inr AlreadySetup, this1)"
    by (simp add: tryEnableMixinWith_enrolled same_id)
  with False run r enrolled show ?thesis by simp
qed

theorem token_change_sets_up_detached_once_witness:
  "fst (tryEnableMixin (supportedTypes turn_ok) platform_ok (Some d1) plugin_v3) = Inr Setup \<and>
   defaultIncluded
     (snd (tryEnableMixin (supportedTypes turn_ok) platform_ok (Some d1) plugin_v3)) =
     Some [(''d1'', 4), (''d2'', 3)] \<and>
   fst (tryEnableMixin (supportedTypes turn_ok) platform_ok (Some d1)
          (snd (tryEnableMixin (supportedTypes turn_ok) platform_ok (Some d1) plugin_v3))) =
     Inr AlreadySetup"
proof -
  have a: "map_of (defaultIncluded_or_empty plugin_v3) (device_id d1) = Some 3"
    by (simp add: sample_defs defaultIncluded_or_empty_def)
  have b: "(3::int) \<noteq> includeToken" by (simp add: includeToken_def)
  have c: "supportedTypes turn_ok (device_type d1) = Some (switch turn_ok)"
    by (simp add: sample_defs)
  have d: "getComponent platform_ok ''plugins'' = None" by (simp add: sample_defs)
  have e: "setMixins platform_ok (device_id d1) (mixins_or_empty d1 @ [this_id plugin_v3]) = None"
    by (simp add: sample_defs)
  have f: "this_id plugin_v3 \<notin> set (mixins_or_empty d1)"
    by (simp add: sample_defs mixins_or_empty_def)
  have g: "defaultIncluded
      (snd (tryEnableMixin (supportedTypes turn_ok) platform_ok (Some d1) plugin_v3)) =
      Some [(''d1'', 4), (''d2'', 3)]"
    by (simp add: sample_defs enroll_defs)
  show ?thesis
    using token_change_sets_up_detached_once
      [where this = plugin_v3 and device = d1 and old = 3 and token = includeToken
        and supported = "supportedTypes turn_ok" and adapter = "switch turn_ok"
        and plat = platform_ok and device' = d1 and plat' = platform_ok, OF a b c d e refl]
      f g
    by (simp add: tryEnableMixin_def)
qed

text \<open>
  Claim C5 as the specification states it fails for a device still attached to the
  plugin. d2 was AlreadySetup under the token 3, and its entry of defaultIncluded holds
  3; under the current token 4 its next evaluation is AlreadySetup again, not Setup, and
  the entry still holds 3.
\<close>

theorem token_change_attached_not_set_up:
  "map_of (defaultIncluded_or_empty plugin_v3) (device_id d2) = Some 3 \<and>
   tryEnableMixinWith 3 (supportedTypes turn_ok) platform_ok (Some d2) plugin_v3 =
     (Inr AlreadySetup, plugin_v3) \<and>
   includeToken = 4 \<and>
   tryEnableMixin (supportedTypes turn_ok) platform_ok (Some d2) plugin_v3 =
     (Inr AlreadySetup, plugin_v3)"
  by (simp add: sample_defs enroll_defs)

text \<open>
  Claim C6. When the platform rejects setMixins for a device that tryEnableMixin has
  come to attach, tryEnableMixin throws that rejection and has written nothing but the
  trace of its calls: defaultIncluded is as it was. A later evaluation of the device, on
  a platform that accepts, sets it up.
\<close>

theorem setMixins_rejected_leaves_record:
  assumes rejects:
      "setMixins plat (device_id device) (mixins_or_empty device @ [this_id this]) = Some e"
    and reached: "this_id this \<notin> set (mixins_or_empty device)"
      "map_of (defaultIncluded_or_empty this) (device_id device) \<noteq> Some includeToken"
      "supported (device_type device) = Some adapter"
      "getComponent plat ''plugins'' = None"
    and later: "getComponent plat' ''plugins'' = None"
      "setMixins plat' (device_id device) (mixins_or_empty device @ [this_id this]) = None"
  shows "tryEnableMixin supported plat (Some device) this =
           (Inl e, this\<lparr>trace := trace this @
              [Has (device_type device), GetComponent ''plugins'',
               SetMixins (device_id device) (mixins_or_empty device @ [this_id this])]\<rparr>) \<and>
         defaultIncluded (snd (tryEnableMixin supported plat (Some device) this)) =
           defaultIncluded this \<and>
         fst (tryEnableMixin supported plat' (Some device)
                (snd (tryEnableMixin supported plat (Some device) this))) = Inr Setup"
proof -
  let ?this1 = "this\<lparr>trace := trace this @
              [Has (device_type device), GetComponent ''plugins'',
               SetMixins (device_id device) (mixins_or_empty device @ [this_id this])]\<rparr>"
  have run: "tryEnableMixin supported plat (Some device) this = (Inl e, ?this1)"
    using rejects reached
    by (simp add: tryEnableMixin_def tryEnableMixinWith_def Let_def called_def)
  have same: "defaultIncluded_or_empty ?this1 = defaultIncluded_or_empty this"
    by (simp add: defaultIncluded_or_empty_def)
  have "fst (tryEnableMixin supported plat' (Some device) ?this1) = Inr Setup"
    using reached later same
    by (simp add: tryEnableMixin_def tryEnableMixinWith_status)
  with run show ?thesis by simp
qed

theorem setMixins_rejected_leaves_record_witness:
  "tryEnableMixin (supportedTypes turn_ok) platform_rejecting_d1 (Some d1) plugin0 =
     (Inl (ExternalError ''setMixins''),
      plugin0\<lparr>trace := [Has ''Switch'', GetComponent ''plugins'',
                        SetMixins ''d1'' [''matter'']]\<rparr>) \<and>
   defaultIncluded
     (snd (tryEnableMixin (supportedTypes turn_ok) platform_rejecting_d1 (Some d1) plugin0)) =
     None \<and>
   fst (tryEnableMixin (supportedTypes turn_ok) platform_ok (Some d1)
          (snd (tryEnableMixin (supportedTypes turn_ok) platform_rejecting_d1 (Some d1)
                 plugin0))) = Inr Setup"
proof -
  have a: "setMixins platform_rejecting_d1 (device_id d1)
             (mixins_or_empty d1 @ [this_id plugin0]) = Some (ExternalError ''setMixins'')"
    by (simp add: sample_defs)
  have b: "this_id plugin0 \<notin> set (mixins_or_empty d1)"
    by (simp add: sample_defs mixins_or_empty_def)
  have c: "map_of (defaultIncluded_or_empty plugin0) (device_id d1) \<noteq> Some includeToken"
    by (simp add: sample_defs defaultIncluded_or_empty_def)
  have d: "supportedTypes turn_ok (device_type d1) = Some (switch turn_ok)"
    by (simp add: sample_defs)
  have e: "getComponent platform_rejecting_d1 ''plugins'' = None" by (simp add: sample_defs)
  have f: "getComponent platform_ok ''plugins'' = None" by (simp add: sample_defs)
  have g: "setMixins platform_ok (device_id d1) (mixins_or_empty d1 @ [this_id plugin0]) = None"
    by (simp add: sample_defs)
  have h: "trace plugin0 = []" "defaultIncluded plugin0 = None" "device_type d1 = ''Switch''"
    "device_id d1 = ''d1''" "mixins_or_empty d1 @ [this_id plugin0] = [''matter'']"
    by (simp_all add: sample_defs mixins_or_empty_def)
  note r = setMixins_rejected_leaves_record [where this = plugin0 and device = d1
        and supported = "supportedTypes turn_ok" and adapter = "switch turn_ok"
        and plat = platform_rejecting_d1 and plat' = platform_ok, OF a b c d e f g]
  show ?thesis
    using r [THEN conjunct1] r [THEN conjunct2, THEN conjunct1]
      r [THEN conjunct2, THEN conjunct2] h
    by simp
qed

subsection \<open>Event dispatch\<close>

lemmas dispatch_defs = deviceListen_def onoff_sendEvent_def warning_def called_def Let_def

text \<open>
  What deviceListen logs for an event that reaches an adapter: one warning when the
  report is falsy and the interface is neither Online nor Battery, none otherwise.
\<close>

lemma deviceListen_warnings:
  assumes "device_id eventSource \<in> synced_set this"
    and "eventInterface eventDetails \<noteq> ScryptedInterface_ScryptedDevice"
    and "supported (device_type eventSource) = Some supportedType"
    and "sendEvent supportedType eventSource eventDetails eventData = (acts, Inr report0)"
  shows "filter is_warning
           (trace (snd (deviceListen supported (Some eventSource) eventDetails eventData this))) =
         filter is_warning (trace this) @
           (if falsy report0 \<and> eventInterface eventDetails \<noteq> ScryptedInterface_Online \<and>
               eventInterface eventDetails \<noteq> ScryptedInterface_Battery
            then [Warn (warning eventDetails eventSource)] else [])"
  using assms
  by (auto simp add: deviceListen_def synced_set_def Let_def called_def comp_def
      split: option.splits)

text \<open>
  With the older adapters, whose sendEvent returns nothing, the test \<^verbatim>\<open>!report\<close> holds
  of every event: each one is warned about, but for the interfaces Online and Battery.
\<close>

lemma deviceListen_void_sendEvent:
  assumes "device_id eventSource \<in> synced_set this"
    and "eventInterface eventDetails \<noteq> ScryptedInterface_ScryptedDevice"
    and "supported (device_type eventSource) = Some supportedType"
    and "sendEvent supportedType = void_sendEvent"
  shows "filter is_warning
           (trace (snd (deviceListen supported (Some eventSource) eventDetails eventData this))) =
         filter is_warning (trace this) @
           (if eventInterface eventDetails \<noteq> ScryptedInterface_Online \<and>
               eventInterface eventDetails \<noteq> ScryptedInterface_Battery
            then [Warn (warning eventDetails eventSource)] else [])"
  using assms
  by (auto simp add: deviceListen_def synced_set_def Let_def called_def comp_def
      void_sendEvent_def split: option.splits)

text \<open>
  Claim C1, on the code. The dispatcher tests the adapter's answer with \<^verbatim>\<open>!report\<close>.
  Handled is the number 0 and NotSupported the number 2, so the test holds of Handled and
  fails of NotSupported. For the light d2, in the synced set: an OnOff event, which the
  adapter handles, is logged as \<open>OnOff.on not supported for device Light\<close>; a
  Brightness event, for which the adapter answers NotSupported, is logged with no
  warning. The claim says the opposite of both.
\<close>

theorem deviceListen_warns_on_Handled_not_on_NotSupported:
  "sendEvent (light turn_ok) d2 \<lparr>eventInterface = ''OnOff'', property = Some ''on''\<rparr> True =
     ([TurnOn ''d2''], Inr (Status Handled)) \<and>
   deviceListen (supportedTypes turn_ok) (Some d2)
       \<lparr>eventInterface = ''OnOff'', property = Some ''on''\<rparr> True plugin0 =
     (Inr (),
      plugin0\<lparr>trace := [Get ''Light'', SendEvent ''d2'' ''OnOff'', Action (TurnOn ''d2''),
                        Warn ''OnOff.on not supported for device Light'']\<rparr>) \<and>
   sendEvent (light turn_ok) d2
       \<lparr>eventInterface = ''Brightness'', property = Some ''brightness''\<rparr> True =
     ([], Inr (Status NotSupported)) \<and>
   deviceListen (supportedTypes turn_ok) (Some d2)
       \<lparr>eventInterface = ''Brightness'', property = Some ''brightness''\<rparr> True plugin0 =
     (Inr (), plugin0\<lparr>trace := [Get ''Light'', SendEvent ''d2'' ''Brightness'']\<rparr>)"
  by (simp add: sample_defs dispatch_defs)

text \<open>
  The calls deviceListen makes into the registry and into sendEvent: for a device in the
  Synced-Device Set and an interface other than ScryptedDevice, the lookup of the
  device's type and, when it has an adapter, one sendEvent; otherwise none.
\<close>

lemma deviceListen_registry_calls:
  "filter is_registry
     (trace (snd (deviceListen supported (Some eventSource) eventDetails eventData this))) =
   filter is_registry (trace this) @
     (if device_id eventSource \<in> synced_set this \<and>
         eventInterface eventDetails \<noteq> ScryptedInterface_ScryptedDevice
      then Get (device_type eventSource) #
           (case supported (device_type eventSource) of
              None \<Rightarrow> []
            | Some supportedType \<Rightarrow>
                [SendEvent (device_id eventSource) (eventInterface eventDetails)])
      else [])"
  by (simp add: deviceListen_def synced_set_def Let_def called_def comp_def
      split: option.splits prod.splits sum.splits)

text \<open>
  Claim C8. For an event whose source device is not in the Synced-Device Set,
  deviceListen leaves the plugin as it was: it has made no call at all, so none to the
  registry and none to an adapter's sendEvent. It returns, or, while the setting
  syncedDevices has never been written, throws at the membership test. For a device that
  is in the set the same dispatcher does make these calls.
\<close>

theorem deviceListen_unsynced_no_registry_call:
  assumes "device_id eventSource \<notin> synced_set this"
  shows "snd (deviceListen supported (Some eventSource) eventDetails eventData this) = this \<and>
         fst (deviceListen supported (Some eventSource) eventDetails eventData this) =
           (case syncedDevices this of
              None \<Rightarrow> Inl (TypeError ''Cannot read properties of undefined'')
            | Some synced \<Rightarrow> Inr ()) \<and>
         filter is_registry
           (trace (snd (deviceListen supported (Some eventSource') eventDetails eventData this))) =
         filter is_registry (trace this) @
           (if device_id eventSource' \<in> synced_set this \<and>
               eventInterface eventDetails \<noteq> ScryptedInterface_ScryptedDevice
            then Get (device_type eventSource') #
                 (case supported (device_type eventSource') of
                    None \<Rightarrow> []
                  | Some supportedType \<Rightarrow>
                      [SendEvent (device_id eventSource') (eventInterface eventDetails)])
            else [])"
proof -
  have "deviceListen supported (Some eventSource) eventDetails eventData this =
      ((case syncedDevices this of
              None \<Rightarrow> Inl (TypeError ''Cannot read properties of undefined'')
            | Some synced \<Rightarrow> Inr ()), this)"
    using assms by (simp add: deviceListen_def synced_set_def split: option.splits)
  then show ?thesis
    using deviceListen_registry_calls [of supported eventSource' eventDetails eventData this]
    by simp
qed

theorem deviceListen_unsynced_no_registry_call_witness:
  "deviceListen (supportedTypes turn_ok) (Some d3)
     \<lparr>eventInterface = ''BinarySensor'', property = Some ''binaryState''\<rparr> True plugin0 =
     (Inr (), plugin0) \<and>
   deviceListen (supportedTypes turn_ok) (Some d1)
     \<lparr>eventInterface = ''Online'', property = Some ''online''\<rparr> True plugin_new =
     (Inl (TypeError ''Cannot read properties of undefined''), plugin_new) \<and>
   trace (snd (deviceListen (supportedTypes turn_ok) (Some d1)
     \<lparr>eventInterface = ''Online'', property = Some ''online''\<rparr> True plugin0)) =
     [Get ''Switch'', SendEvent ''d1'' ''Online'']"
proof -
  have a: "device_id d3 \<notin> synced_set plugin0" by (simp add: sample_defs synced_set_def)
  have b: "device_id d1 \<notin> synced_set plugin_new" by (simp add: sample_defs synced_set_def)
  have c: "syncedDevices plugin0 = Some [''d1'', ''d2'']" "syncedDevices plugin_new = None"
    by (simp_all add: sample_defs)
  have d: "trace (snd (deviceListen (supportedTypes turn_ok) (Some d1)
     \<lparr>eventInterface = ''Online'', property = Some ''online''\<rparr> True plugin0)) =
     [Get ''Switch'', SendEvent ''d1'' ''Online'']"
    by (simp add: sample_defs dispatch_defs)
  note r1 = deviceListen_unsynced_no_registry_call
      [where supported = "supportedTypes turn_ok" and eventData = True
        and eventDetails =
          "\<lparr>eventInterface = ''BinarySensor'', property = Some ''binaryState''\<rparr>",
        OF a]
  note r2 = deviceListen_unsynced_no_registry_call
      [where supported = "supportedTypes turn_ok" and eventData = True
        and eventDetails = "\<lparr>eventInterface = ''Online'', property = Some ''online''\<rparr>",
        OF b]
  show ?thesis
    using r1 [THEN conjunct1] r1 [THEN conjunct2, THEN conjunct1]
      r2 [THEN conjunct1] r2 [THEN conjunct2, THEN conjunct1] c d
    by (simp add: prod_eq_iff)
qed


subsection \<open>Bridging at startup and on the live feed\<close>

lemma tryEnableMixinWith_bridging:
  "filter is_bridging (trace (snd (tryEnableMixinWith token supported plat dev this))) =
     filter is_bridging (trace this)"
  by (simp add: tryEnableMixinWith_def Let_def called_def split: option.splits)

lemma deviceListen_bridging:
  "filter is_bridging (trace (snd (deviceListen supported src eventDetails eventData this))) =
     filter is_bridging (trace this)"
  by (simp add: deviceListen_def Let_def called_def comp_def
      split: option.splits prod.splits sum.splits)

lemma discover_and_add_bridging:
  "filter is_bridging (trace (snd (discover_and_add supported plat (Some device) this))) =
     filter is_bridging (trace this) @ bridging_calls supported device"
  by (simp add: discover_and_add_def bridging_calls_def Let_def called_def
      split: option.splits sum.splits)

lemma tryEnableMixin_None:
  "tryEnableMixin supported plat None this = (Inr NotSupported_mixin, this)"
  by (simp add: tryEnableMixin_def tryEnableMixinWith_def)

lemma listen_callback_bridging:
  "filter is_bridging
     (trace (snd (listen_callback supported plat eventSource eventDetails eventData this))) =
   filter is_bridging (trace this) @
     (case eventSource of
        None \<Rightarrow> []
      | Some device \<Rightarrow>
          if fst (tryEnableMixin supported plat eventSource this) = Inr Setup
          then bridging_calls supported device else [])"
proof (cases eventSource)
  case None
  then show ?thesis by (simp add: listen_callback_def tryEnableMixin_None)
next
  case (Some device)
  obtain r this1 where run: "tryEnableMixin supported plat (Some device) this = (r, this1)"
    by (cases "tryEnableMixin supported plat (Some device) this")
  have t1: "filter is_bridging (trace this1) = filter is_bridging (trace this)"
    using tryEnableMixinWith_bridging [of includeToken supported plat "Some device" this] run
    by (simp add: tryEnableMixin_def)
  show ?thesis
  proof (cases r)
    case (Inl e)
    with Some run t1 show ?thesis by (simp add: listen_callback_def)
  next
    case (Inr status)
    obtain r2 this2
      where add: "discover_and_add supported plat (Some device) this1 = (r2, this2)"
      by (cases "discover_and_add supported plat (Some device) this1")
    have t2: "filter is_bridging (trace this2) =
        filter is_bridging (trace this) @ bridging_calls supported device"
      using discover_and_add_bridging [of supported plat device this1] add t1 by simp
    show ?thesis
    proof (cases status)
      case NotSupported_mixin
      with Some run Inr t1 show ?thesis by (simp add: listen_callback_def)
    next
      case Setup
      with Some run Inr add t2 show ?thesis
        by (cases r2) (simp_all add: listen_callback_def Let_def called_def deviceListen_bridging)
    next
      case AlreadySetup
      with Some run Inr t1 show ?thesis
        by (simp add: listen_callback_def Let_def called_def deviceListen_bridging)
    qed
  qed
qed

lemma start_devices_one_bridging:
  "filter is_bridging (trace (snd (start_devices supported plat [dev] this))) =
   filter is_bridging (trace this) @
     (case dev of
        None \<Rightarrow> []
      | Some device \<Rightarrow>
          if fst (tryEnableMixin supported plat dev this) = Inr Setup \<or>
             fst (tryEnableMixin supported plat dev this) = Inr AlreadySetup
          then bridging_calls supported device else [])"
proof (cases dev)
  case None
  then show ?thesis by (simp add: tryEnableMixin_None)
next
  case (Some device)
  obtain r this1 where run: "tryEnableMixin supported plat (Some device) this = (r, this1)"
    by (cases "tryEnableMixin supported plat (Some device) this")
  have t1: "filter is_bridging (trace this1) = filter is_bridging (trace this)"
    using tryEnableMixinWith_bridging [of includeToken supported plat "Some device" this] run
    by (simp add: tryEnableMixin_def)
  obtain r2 this2
    where add: "discover_and_add supported plat (Some device) this1 = (r2, this2)"
    by (cases "discover_and_add supported plat (Some device) this1")
  have t2: "filter is_bridging (trace this2) =
      filter is_bridging (trace this) @ bridging_calls supported device"
    using discover_and_add_bridging [of supported plat device this1] add t1 by simp
  show ?thesis
  proof (cases r)
    case (Inl e)
    with Some run t1 show ?thesis by simp
  next
    case (Inr status)
    with Some run add t1 t2 show ?thesis
      by (cases status; cases r2) simp_all
  qed
qed

lemma start_devices_append:
  "start_devices supported plat (xs @ ys) this =
     (case start_devices supported plat xs this of
        (Inl e, this1) \<Rightarrow> (Inl e, this1)
      | (Inr u, this1) \<Rightarrow> start_devices supported plat ys this1)"
  by (induction xs arbitrary: this) (simp_all split: prod.splits sum.splits)

lemma tryEnableMixinWith_trace:
  "prefix (trace this) (trace (snd (tryEnableMixinWith token supported plat dev this)))"
  by (simp add: tryEnableMixinWith_def Let_def called_def split: option.splits)

lemma discover_and_add_trace:
  "prefix (trace this) (trace (snd (discover_and_add supported plat dev this)))"
  by (simp add: discover_and_add_def Let_def called_def split: option.splits sum.splits)

lemma start_devices_trace:
  "prefix (trace this) (trace (snd (start_devices supported plat ds this)))"
proof (induction ds arbitrary: this)
  case Nil
  show ?case by simp
next
  case (Cons dev ds)
  obtain r this1 where run: "tryEnableMixin supported plat dev this = (r, this1)"
    by (cases "tryEnableMixin supported plat dev this")
  have p1: "prefix (trace this) (trace this1)"
    using tryEnableMixinWith_trace [of this includeToken supported plat dev] run
    by (simp add: tryEnableMixin_def)
  obtain r2 this2 where add: "discover_and_add supported plat dev this1 = (r2, this2)"
    by (cases "discover_and_add supported plat dev this1")
  have p2: "prefix (trace this) (trace this2)"
    using discover_and_add_trace [of this1 supported plat dev] add p1
    by (auto intro: prefix_order.trans)
  have q1: "prefix (trace this) (trace (snd (start_devices supported plat ds this1)))"
    using p1 Cons.IH [of this1] by (auto intro: prefix_order.trans)
  have q2: "prefix (trace this) (trace (snd (start_devices supported plat ds this2)))"
    using p2 Cons.IH [of this2] by (auto intro: prefix_order.trans)
  show ?case
    using run add p1 p2 q1 q2
    by (cases r; cases r2) (simp_all)
qed

lemma start_devices_no_adapter:
  assumes "fst (tryEnableMixin supported plat (Some device) this) = Inr AlreadySetup"
    and "supported (device_type device) = None"
  shows "fst (start_devices supported plat (Some device # rest) this) =
           Inl (TypeError ''Cannot read properties of undefined'')"
proof -
  obtain r this1 where run: "tryEnableMixin supported plat (Some device) this = (r, this1)"
    by (cases "tryEnableMixin supported plat (Some device) this")
  with assms show ?thesis
    by (simp add: discover_and_add_def Let_def)
qed

lemma sample_startup_d1:
  "start_devices (supportedTypes turn_ok) platform_ok [Some d1] plugin0 =
     (Inr (),
      plugin0\<lparr>defaultIncluded := Some [(''d1'', 4)],
              trace := [Has ''Switch'', GetComponent ''plugins'', SetMixins ''d1'' [''matter''],
                        Get ''Switch'', Discover ''d1'',
                        AddBridgedDevice (Some (OnOffPluginUnitDevice ''d1'')) ''Pump'']\<rparr>)"
  by (simp add: sample_defs enroll_defs discover_and_add_def)

text \<open>
  Claim C2, as the code has it. On the live feed the callback calls discover and
  addBridgedDevice for the event's device exactly when tryEnableMixin has returned Setup:
  after AlreadySetup (and after NotSupported or an error) it makes no bridging call. In
  the startup enumeration, for every device the loop reaches, wherever it stands in the
  list, the loop makes the bridging calls after Setup and after AlreadySetup alike, and
  they stay in the trace of the whole loop: discover, and addBridgedDevice when discover
  resolves, if the device's type has an adapter. An AlreadySetup device whose type has no
  adapter is not discovered: the lookup answers nothing and the loop throws.
\<close>

theorem feed_discovers_after_Setup_startup_also_after_AlreadySetup:
  assumes reached: "start_devices supported plat before this0 = (Inr (), this1)"
  shows
   "filter is_bridging
      (trace (snd (listen_callback supported plat eventSource eventDetails eventData this))) =
    filter is_bridging (trace this) @
      (case eventSource of
         None \<Rightarrow> []
       | Some device \<Rightarrow>
           if fst (tryEnableMixin supported plat eventSource this) = Inr Setup
           then bridging_calls supported device else [])
    \<and>
    filter is_bridging (trace (snd (start_devices supported plat (before @ [dev]) this0))) =
    filter is_bridging (trace this1) @
      (case dev of
         None \<Rightarrow> []
       | Some device \<Rightarrow>
           if fst (tryEnableMixin supported plat dev this1) = Inr Setup \<or>
              fst (tryEnableMixin supported plat dev this1) = Inr AlreadySetup
           then bridging_calls supported device else [])
    \<and>
    prefix (trace (snd (start_devices supported plat (before @ [dev]) this0)))
           (trace (snd (start_devices supported plat (before @ dev # rest) this0)))
    \<and>
    (fst (tryEnableMixin supported plat dev this1) = Inr AlreadySetup \<and>
     (case dev of None \<Rightarrow> False | Some device \<Rightarrow> supported (device_type device) = None) \<longrightarrow>
     fst (start_devices supported plat (before @ dev # rest) this0) =
       Inl (TypeError ''Cannot read properties of undefined''))"
proof -
  have upto: "start_devices supported plat (before @ [dev]) this0 =
      start_devices supported plat [dev] this1"
    using reached by (simp add: start_devices_append)
  have whole: "start_devices supported plat (before @ dev # rest) this0 =
      start_devices supported plat (dev # rest) this1"
    using reached by (simp add: start_devices_append)
  have feed: "filter is_bridging
      (trace (snd (listen_callback supported plat eventSource eventDetails eventData this))) =
    filter is_bridging (trace this) @
      (case eventSource of
         None \<Rightarrow> []
       | Some device \<Rightarrow>
           if fst (tryEnableMixin supported plat eventSource this) = Inr Setup
           then bridging_calls supported device else [])"
    by (rule listen_callback_bridging)
  have turn: "filter is_bridging
        (trace (snd (start_devices supported plat (before @ [dev]) this0))) =
    filter is_bridging (trace this1) @
      (case dev of
         None \<Rightarrow> []
       | Some device \<Rightarrow>
           if fst (tryEnableMixin supported plat dev this1) = Inr Setup \<or>
              fst (tryEnableMixin supported plat dev this1) = Inr AlreadySetup
           then bridging_calls supported device else [])"
    unfolding upto by (rule start_devices_one_bridging)
  have "start_devices supported plat ((before @ [dev]) @ rest) this0 =
     (case start_devices supported plat (before @ [dev]) this0 of
        (Inl e, this2) \<Rightarrow> (Inl e, this2)
      | (Inr u, this2) \<Rightarrow> start_devices supported plat rest this2)"
    by (rule start_devices_append)
  then have kept: "prefix (trace (snd (start_devices supported plat (before @ [dev]) this0)))
           (trace (snd (start_devices supported plat (before @ dev # rest) this0)))"
    using start_devices_trace [of _ supported plat rest]
    by (cases "start_devices supported plat (before @ [dev]) this0")
       (auto split: sum.splits)
  have throws: "fst (tryEnableMixin supported plat dev this1) = Inr AlreadySetup \<and>
     (case dev of None \<Rightarrow> False | Some device \<Rightarrow> supported (device_type device) = None) \<longrightarrow>
     fst (start_devices supported plat (before @ dev # rest) this0) =
       Inl (TypeError ''Cannot read properties of undefined'')"
    unfolding whole
    by (cases dev) (simp_all del: start_devices.simps add: start_devices_no_adapter)
  from feed turn kept throws show ?thesis by (intro conjI)
qed

theorem feed_discovers_after_Setup_startup_also_after_AlreadySetup_witness:
  "fst (tryEnableMixin (supportedTypes turn_ok) platform_ok (Some d2)
     (plugin0\<lparr>defaultIncluded := Some [(''d1'', 4)],
              trace := [Has ''Switch'', GetComponent ''plugins'', SetMixins ''d1'' [''matter''],
                        Get ''Switch'', Discover ''d1'',
                        AddBridgedDevice (Some (OnOffPluginUnitDevice ''d1'')) ''Pump'']\<rparr>)) =
     Inr AlreadySetup \<and>
   filter is_bridging
     (trace (snd (start_devices (supportedTypes turn_ok) platform_ok [Some d1, Some d2] plugin0))) =
     [Discover ''d1'', AddBridgedDevice (Some (OnOffPluginUnitDevice ''d1'')) ''Pump'',
      Discover ''d2'', AddBridgedDevice (Some (OnOffLightDevice ''d2'')) ''Lamp''] \<and>
   fst (tryEnableMixin (supportedTypes turn_ok) platform_ok (Some d3)
          (plugin0\<lparr>defaultIncluded := Some [(''d3'', 4)]\<rparr>)) = Inr AlreadySetup \<and>
   fst (start_devices (supportedTypes turn_ok) platform_ok [Some d3, Some d2]
          (plugin0\<lparr>defaultIncluded := Some [(''d3'', 4)]\<rparr>)) =
     Inl (TypeError ''Cannot read properties of undefined'')"
proof -
  let ?p1 = "plugin0\<lparr>defaultIncluded := Some [(''d1'', 4)],
              trace := [Has ''Switch'', GetComponent ''plugins'', SetMixins ''d1'' [''matter''],
                        Get ''Switch'', Discover ''d1'',
                        AddBridgedDevice (Some (OnOffPluginUnitDevice ''d1'')) ''Pump'']\<rparr>"
  let ?p3 = "plugin0\<lparr>defaultIncluded := Some [(''d3'', 4)]\<rparr>"
  have a: "fst (tryEnableMixin (supportedTypes turn_ok) platform_ok (Some d2) ?p1) =
      Inr AlreadySetup"
    by (simp add: sample_defs enroll_defs)
  have b: "bridging_calls (supportedTypes turn_ok) d2 =
      [Discover ''d2'', AddBridgedDevice (Some (OnOffLightDevice ''d2'')) ''Lamp'']"
    by (simp add: sample_defs bridging_calls_def)
  have c: "fst (tryEnableMixin (supportedTypes turn_ok) platform_ok (Some d3) ?p3) =
      Inr AlreadySetup"
    by (simp add: sample_defs enroll_defs)
  have d: "supportedTypes turn_ok (device_type d3) = None"
    by (simp add: sample_defs)
  have e: "start_devices (supportedTypes turn_ok) platform_ok [] ?p3 = (Inr (), ?p3)"
    by simp
  note r = feed_discovers_after_Setup_startup_also_after_AlreadySetup
      [where dev = "Some d2" and rest = "[]", OF sample_startup_d1,
      THEN conjunct2, THEN conjunct1]
  note t = feed_discovers_after_Setup_startup_also_after_AlreadySetup
      [where dev = "Some d3" and rest = "[Some d2]", OF e,
      THEN conjunct2, THEN conjunct2, THEN conjunct2]
  show ?thesis using r t a b c d by simp
qed


text \<open>
  Claim C2 as the specification states it fails in the startup enumeration: d2 is
  classified AlreadySetup, and the loop calls its adapter's discover and registers the
  node with addBridgedDevice.
\<close>

theorem startup_discovers_AlreadySetup:
  "fst (tryEnableMixin (supportedTypes turn_ok) platform_ok (Some d2) plugin0) =
     Inr AlreadySetup \<and>
   trace (snd (start_devices (supportedTypes turn_ok) platform_ok [Some d2] plugin0)) =
     [Get ''Light'', Discover ''d2'',
      AddBridgedDevice (Some (OnOffLightDevice ''d2'')) ''Lamp'']"
  by (simp add: sample_defs enroll_defs discover_and_add_def)

subsection \<open>Errors in the startup enumeration\<close>

text \<open>
  Claim C9, as the code has it. When the loop has processed the devices \<open>before\<close> and
  the enrollment or the discover of the next device throws, the loop ends there with that
  error, whatever devices remain: none of them is evaluated.
\<close>

theorem start_devices_stops_at_first_error:
  assumes before: "start_devices supported plat before this = (Inr (), this1)"
    and throws: "tryEnableMixin supported plat dev this1 = (Inl e, this2) \<or>
           (tryEnableMixin supported plat dev this1 = (Inr status, this') \<and>
              (status = Setup \<or> status = AlreadySetup) \<and>
              discover_and_add supported plat dev this' = (Inl e, this2))"
  shows "start_devices supported plat (before @ dev # rest) this = (Inl e, this2)"
proof -
  from throws have "start_devices supported plat (dev # rest) this1 = (Inl e, this2)"
    by auto
  with before show ?thesis by (simp add: start_devices_append)
qed

theorem start_devices_stops_at_first_error_witness:
  "start_devices (supportedTypes turn_ok) platform_rejecting_d1
     [Some d2, Some d1, Some d3] plugin0 =
     (Inl (ExternalError ''setMixins''),
      plugin0\<lparr>trace := [Get ''Light'', Discover ''d2'',
                        AddBridgedDevice (Some (OnOffLightDevice ''d2'')) ''Lamp'',
                        Has ''Switch'', GetComponent ''plugins'',
                        SetMixins ''d1'' [''matter'']]\<rparr>)"
proof -
  let ?p1 = "plugin0\<lparr>trace := [Get ''Light'', Discover ''d2'',
                        AddBridgedDevice (Some (OnOffLightDevice ''d2'')) ''Lamp'']\<rparr>"
  let ?p2 = "plugin0\<lparr>trace := [Get ''Light'', Discover ''d2'',
                        AddBridgedDevice (Some (OnOffLightDevice ''d2'')) ''Lamp'',
                        Has ''Switch'', GetComponent ''plugins'',
                        SetMixins ''d1'' [''matter'']]\<rparr>"
  have a: "start_devices (supportedTypes turn_ok) platform_rejecting_d1 [Some d2] plugin0 =
      (Inr (), ?p1)"
    by (simp add: sample_defs enroll_defs discover_and_add_def)
  have b: "tryEnableMixin (supportedTypes turn_ok) platform_rejecting_d1 (Some d1) ?p1 =
      (Inl (ExternalError ''setMixins''), ?p2)"
    by (simp add: sample_defs enroll_defs)
  show ?thesis
    using start_devices_stops_at_first_error [where rest = "[Some d3]", OF a disjI1 [OF b]]
    by simp
qed

text \<open>
  Claim C9 as the specification states it fails: with d1 before d2 and a platform that
  rejects the attachment of d1, the loop throws at d1 and d2 is never evaluated, though
  the same loop on d2 alone bridges it.
\<close>

theorem start_devices_error_skips_rest:
  "start_devices (supportedTypes turn_ok) platform_rejecting_d1 [Some d1, Some d2] plugin0 =
     (Inl (ExternalError ''setMixins''),
      plugin0\<lparr>trace := [Has ''Switch'', GetComponent ''plugins'',
                        SetMixins ''d1'' [''matter'']]\<rparr>) \<and>
   start_devices (supportedTypes turn_ok) platform_rejecting_d1 [Some d2] plugin0 =
     (Inr (),
      plugin0\<lparr>trace := [Get ''Light'', Discover ''d2'',
                        AddBridgedDevice (Some (OnOffLightDevice ''d2'')) ''Lamp'']\<rparr>)"
  by (simp add: sample_defs enroll_defs discover_and_add_def)

end
